theory Spec2Isabelle
  imports Complex_Main "HOL-Library.Log_Nat"
begin

section \<open>Python floats\<close>

text \<open>
  Amounts, balances, rates and limits of \<^verbatim>\<open>bank_account.py\<close> are Python floats: IEEE 754
  binary64 values, with round-to-nearest, ties-to-even arithmetic. A float is modelled as
  a rational number or one of the three special values. The two zeros \<^verbatim>\<open>0.0\<close> and
  \<^verbatim>\<open>-0.0\<close>, which every comparison of Python treats as equal and which differ only
  when printed, are the one value \<open>Finite 0\<close>. Of the rationals, the floats are those
  that rounding leaves unchanged (\<open>is_double\<close> below).
\<close>

datatype pyfloat = Finite rat | PosInf | NegInf | NaN

text \<open>\<open>ilog2 x\<close> is the integer \<open>k\<close> with \<open>2 powi k \<le> x < 2 powi (k + 1)\<close>, for positive \<open>x\<close>.\<close>

definition ilog2 :: "rat \<Rightarrow> int" where
  "ilog2 x = (case quotient_of x of (p, q) \<Rightarrow>
     let d = bitlen p - bitlen q in if 2 powi d \<le> x then d else d - 1)"

definition round_half_even :: "rat \<Rightarrow> int" where
  "round_half_even q =
     (let f = \<lfloor>q\<rfloor>; r = q - of_int f
      in if r < 1 / 2 then f else if 1 / 2 < r then f + 1
         else if even f then f else f + 1)"

text \<open>
  The exponent of the unit in the last place of a positive magnitude: 53 significant bits
  for a normal number, and never less than \<open>- 1074\<close>, the exponent of the spacing of the
  subnormal numbers.
\<close>

definition ulp_exp :: "rat \<Rightarrow> int" where
  "ulp_exp a = max (ilog2 a - 52) (- 1074)"

definition round_mag :: "rat \<Rightarrow> rat" where
  "round_mag a =
     (let e = ulp_exp a
      in of_int (round_half_even (a / 2 powi e)) * 2 powi e)"

definition overflow_bound :: rat where
  "overflow_bound = 2 powi 1024"

definition round_pos :: "rat \<Rightarrow> pyfloat" where
  "round_pos a = (let y = round_mag a in if overflow_bound \<le> y then PosInf else Finite y)"

fun fneg :: "pyfloat \<Rightarrow> pyfloat" where
  "fneg (Finite x) = Finite (- x)"
| "fneg PosInf = NegInf"
| "fneg NegInf = PosInf"
| "fneg NaN = NaN"

text \<open>The float nearest to a rational; a magnitude that rounds up to \<open>2 powi 1024\<close> overflows.\<close>

definition round64 :: "rat \<Rightarrow> pyfloat" where
  "round64 x =
     (if x = 0 then Finite 0
      else if 0 < x then round_pos x
      else fneg (round_pos (- x)))"

fun is_double :: "pyfloat \<Rightarrow> bool" where
  "is_double (Finite x) = (round64 x = Finite x)"
| "is_double _ = True"

text \<open>Python's \<^verbatim>\<open>a < b\<close>, \<^verbatim>\<open>a <= b\<close> and \<^verbatim>\<open>a > b\<close>: every comparison with NaN is false.\<close>

fun flt :: "pyfloat \<Rightarrow> pyfloat \<Rightarrow> bool" where
  "flt NaN _ = False"
| "flt _ NaN = False"
| "flt (Finite x) (Finite y) = (x < y)"
| "flt (Finite x) PosInf = True"
| "flt (Finite x) NegInf = False"
| "flt PosInf _ = False"
| "flt NegInf NegInf = False"
| "flt NegInf _ = True"

fun fle :: "pyfloat \<Rightarrow> pyfloat \<Rightarrow> bool" where
  "fle NaN _ = False"
| "fle _ NaN = False"
| "fle (Finite x) (Finite y) = (x \<le> y)"
| "fle (Finite x) PosInf = True"
| "fle (Finite x) NegInf = False"
| "fle NegInf _ = True"
| "fle PosInf PosInf = True"
| "fle PosInf _ = False"

definition fgt :: "pyfloat \<Rightarrow> pyfloat \<Rightarrow> bool" where
  "fgt a b = flt b a"

text \<open>Python's \<^verbatim>\<open>a + b\<close>, \<^verbatim>\<open>a - b\<close> and \<^verbatim>\<open>a * b\<close> on floats.\<close>

fun fadd :: "pyfloat \<Rightarrow> pyfloat \<Rightarrow> pyfloat" where
  "fadd NaN _ = NaN"
| "fadd _ NaN = NaN"
| "fadd (Finite x) (Finite y) = round64 (x + y)"
| "fadd (Finite x) PosInf = PosInf"
| "fadd (Finite x) NegInf = NegInf"
| "fadd PosInf NegInf = NaN"
| "fadd PosInf _ = PosInf"
| "fadd NegInf PosInf = NaN"
| "fadd NegInf _ = NegInf"

definition fsub :: "pyfloat \<Rightarrow> pyfloat \<Rightarrow> pyfloat" where
  "fsub a b = fadd a (fneg b)"

fun fsgn :: "pyfloat \<Rightarrow> int" where
  "fsgn (Finite x) = (if x < 0 then - 1 else if x = 0 then 0 else 1)"
| "fsgn PosInf = 1"
| "fsgn NegInf = - 1"
| "fsgn NaN = 0"

fun fmul :: "pyfloat \<Rightarrow> pyfloat \<Rightarrow> pyfloat" where
  "fmul NaN _ = NaN"
| "fmul _ NaN = NaN"
| "fmul (Finite x) (Finite y) = round64 (x * y)"
| "fmul a b =
     (if fsgn a * fsgn b = 0 then NaN
      else if 0 < fsgn a * fsgn b then PosInf else NegInf)"

section \<open>The classes of \<^verbatim>\<open>bank_account.py\<close>\<close>

text \<open>
  An object is a record of its attributes, and a subclass extends the record of its base
  class. A method takes the object as its first argument and returns the object as the
  call leaves it, together with the exception it raised, if any. \<^verbatim>\<open>datetime.now()\<close> reads
  the clock: the reading is an argument of every method that constructs a transaction.
  The confirmation that \<^verbatim>\<open>deposit\<close>, \<^verbatim>\<open>withdraw\<close> and \<^verbatim>\<open>apply_interest\<close> print as their
  last statement changes no attribute and raises nothing on floats; only the output of
  \<^verbatim>\<open>get_transaction_history\<close>, which does nothing else, is modelled.
\<close>

datatype exn = ValueError string

type_synonym datetime = nat

record Transaction =
  amount :: pyfloat
  transaction_type :: string
  date :: datetime

definition Transaction_init :: "pyfloat \<Rightarrow> string \<Rightarrow> datetime \<Rightarrow> Transaction" where
  "Transaction_init amt ty now = \<lparr>amount = amt, transaction_type = ty, date = now\<rparr>"

text \<open>
  \<^verbatim>\<open>Transaction.__str__\<close>; \<^verbatim>\<open>strftime\<close> and the \<^verbatim>\<open>:.2f\<close> format belong to Python and
  are parameters.
\<close>

definition Transaction_str ::
  "(datetime \<Rightarrow> string) \<Rightarrow> (pyfloat \<Rightarrow> string) \<Rightarrow> Transaction \<Rightarrow> string" where
  "Transaction_str strftime format_2f self =
     strftime (date self) @ '' - '' @ transaction_type self @ '': '' @ format_2f (amount self)"

record BankAccount =
  owner :: string
  balance :: pyfloat
  transactions :: "Transaction list"

definition get_balance :: "'a BankAccount_scheme \<Rightarrow> pyfloat" where
  "get_balance self = balance self"

definition add_transaction :: "'a BankAccount_scheme \<Rightarrow> Transaction \<Rightarrow> 'a BankAccount_scheme" where
  "add_transaction self transaction = self\<lparr>transactions := transactions self @ [transaction]\<rparr>"

text \<open>The lines that \<^verbatim>\<open>get_transaction_history\<close> prints, and the account after the call.\<close>

definition get_transaction_history ::
  "(datetime \<Rightarrow> string) \<Rightarrow> (pyfloat \<Rightarrow> string) \<Rightarrow> 'a BankAccount_scheme
     \<Rightarrow> string list \<times> 'a BankAccount_scheme" where
  "get_transaction_history strftime format_2f self =
     ((if transactions self = [] then [''No transactions found.''] else [])
        @ map (Transaction_str strftime format_2f) (transactions self), self)"

record SavingsAccount = BankAccount +
  interest_rate :: pyfloat

definition SavingsAccount_init :: "string \<Rightarrow> pyfloat \<Rightarrow> pyfloat \<Rightarrow> SavingsAccount" where
  "SavingsAccount_init own bal rate =
     \<lparr>owner = own, balance = bal, transactions = [], interest_rate = rate\<rparr>"

definition SavingsAccount_deposit ::
  "SavingsAccount \<Rightarrow> pyfloat \<Rightarrow> datetime \<Rightarrow> exn option \<times> SavingsAccount" where
  "SavingsAccount_deposit self amt now =
     (if fle amt (Finite 0) then (Some (ValueError ''Deposit amount must be positive.''), self)
      else (None, add_transaction (self\<lparr>balance := fadd (balance self) amt\<rparr>)
                    (Transaction_init amt ''Deposit'' now)))"

definition SavingsAccount_withdraw ::
  "SavingsAccount \<Rightarrow> pyfloat \<Rightarrow> datetime \<Rightarrow> exn option \<times> SavingsAccount" where
  "SavingsAccount_withdraw self amt now =
     (if fle amt (Finite 0) then (Some (ValueError ''Withdrawal amount must be positive.''), self)
      else if fgt amt (balance self) then (Some (ValueError ''Insufficient funds.''), self)
      else (None, add_transaction (self\<lparr>balance := fsub (balance self) amt\<rparr>)
                    (Transaction_init amt ''Withdrawal'' now)))"

definition apply_interest :: "SavingsAccount \<Rightarrow> datetime \<Rightarrow> exn option \<times> SavingsAccount" where
  "apply_interest self now =
     (let interest = fmul (balance self) (interest_rate self)
      in SavingsAccount_deposit self interest now)"

record CheckingAccount = BankAccount +
  overdraft_limit :: pyfloat

definition CheckingAccount_init :: "string \<Rightarrow> pyfloat \<Rightarrow> pyfloat \<Rightarrow> CheckingAccount" where
  "CheckingAccount_init own bal lmt =
     \<lparr>owner = own, balance = bal, transactions = [], overdraft_limit = lmt\<rparr>"

definition CheckingAccount_deposit ::
  "CheckingAccount \<Rightarrow> pyfloat \<Rightarrow> datetime \<Rightarrow> exn option \<times> CheckingAccount" where
  "CheckingAccount_deposit self amt now =
     (if fle amt (Finite 0) then (Some (ValueError ''Deposit amount must be positive.''), self)
      else (None, add_transaction (self\<lparr>balance := fadd (balance self) amt\<rparr>)
                    (Transaction_init amt ''Deposit'' now)))"

definition CheckingAccount_withdraw ::
  "CheckingAccount \<Rightarrow> pyfloat \<Rightarrow> datetime \<Rightarrow> exn option \<times> CheckingAccount" where
  "CheckingAccount_withdraw self amt now =
     (if fle amt (Finite 0) then (Some (ValueError ''Withdrawal amount must be positive.''), self)
      else if flt (fsub (balance self) amt) (overdraft_limit self)
        then (Some (ValueError ''Overdraft limit reached.''), self)
      else (None, add_transaction (self\<lparr>balance := fsub (balance self) amt\<rparr>)
                    (Transaction_init amt ''Withdrawal'' now)))"

section \<open>Sequences of calls\<close>

text \<open>
  A caller that issues one call after another on the same account and catches the
  exception of a call that fails, as a test of the classes does. Each call comes with
  the clock reading at the time it is made.
\<close>

datatype savings_call = SDeposit pyfloat | SWithdraw pyfloat | SApplyInterest

datatype checking_call = CDeposit pyfloat | CWithdraw pyfloat

fun savings_step :: "SavingsAccount \<Rightarrow> savings_call \<times> datetime \<Rightarrow> exn option \<times> SavingsAccount" where
  "savings_step self (SDeposit amt, now) = SavingsAccount_deposit self amt now"
| "savings_step self (SWithdraw amt, now) = SavingsAccount_withdraw self amt now"
| "savings_step self (SApplyInterest, now) = apply_interest self now"

fun checking_step :: "CheckingAccount \<Rightarrow> checking_call \<times> datetime \<Rightarrow> exn option \<times> CheckingAccount" where
  "checking_step self (CDeposit amt, now) = CheckingAccount_deposit self amt now"
| "checking_step self (CWithdraw amt, now) = CheckingAccount_withdraw self amt now"

fun savings_run :: "SavingsAccount \<Rightarrow> (savings_call \<times> datetime) list \<Rightarrow> SavingsAccount" where
  "savings_run self [] = self"
| "savings_run self (c # cs) = savings_run (snd (savings_step self c)) cs"

fun checking_run :: "CheckingAccount \<Rightarrow> (checking_call \<times> datetime) list \<Rightarrow> CheckingAccount" where
  "checking_run self [] = self"
| "checking_run self (c # cs) = checking_run (snd (checking_step self c)) cs"

text \<open>What each call of a sequence raised (\<open>None\<close> for a call that returned).\<close>

fun savings_outcomes :: "SavingsAccount \<Rightarrow> (savings_call \<times> datetime) list \<Rightarrow> exn option list" where
  "savings_outcomes self [] = []"
| "savings_outcomes self (c # cs) =
     fst (savings_step self c) # savings_outcomes (snd (savings_step self c)) cs"

fun checking_outcomes :: "CheckingAccount \<Rightarrow> (checking_call \<times> datetime) list \<Rightarrow> exn option list" where
  "checking_outcomes self [] = []"
| "checking_outcomes self (c # cs) =
     fst (checking_step self c) # checking_outcomes (snd (checking_step self c)) cs"

text \<open>
  The specification's side of the history: the record that a successful call stands for
  (an interest accrual is a deposit of the interest computed from the account as the call
  finds it), and the records of the successful calls of a sequence, in the order of the
  calls.
\<close>

fun savings_record :: "SavingsAccount \<Rightarrow> savings_call \<times> datetime \<Rightarrow> Transaction" where
  "savings_record self (SDeposit amt, now) =
     \<lparr>amount = amt, transaction_type = ''Deposit'', date = now\<rparr>"
| "savings_record self (SWithdraw amt, now) =
     \<lparr>amount = amt, transaction_type = ''Withdrawal'', date = now\<rparr>"
| "savings_record self (SApplyInterest, now) =
     \<lparr>amount = fmul (balance self) (interest_rate self), transaction_type = ''Deposit'',
      date = now\<rparr>"

fun checking_record :: "checking_call \<times> datetime \<Rightarrow> Transaction" where
  "checking_record (CDeposit amt, now) =
     \<lparr>amount = amt, transaction_type = ''Deposit'', date = now\<rparr>"
| "checking_record (CWithdraw amt, now) =
     \<lparr>amount = amt, transaction_type = ''Withdrawal'', date = now\<rparr>"

fun savings_successes :: "SavingsAccount \<Rightarrow> (savings_call \<times> datetime) list \<Rightarrow> Transaction list" where
  "savings_successes self [] = []"
| "savings_successes self (c # cs) =
     (if fst (savings_step self c) = None then [savings_record self c] else [])
       @ savings_successes (snd (savings_step self c)) cs"

fun checking_successes :: "CheckingAccount \<Rightarrow> (checking_call \<times> datetime) list \<Rightarrow> Transaction list" where
  "checking_successes self [] = []"
| "checking_successes self (c # cs) =
     (if fst (checking_step self c) = None then [checking_record c] else [])
       @ checking_successes (snd (checking_step self c)) cs"

section \<open>Properties of rounding\<close>

lemma p2_add: "(2::rat) powi (a + b) = 2 powi a * 2 powi b"
  by (simp add: power_int_add)

lemma p2_diff: "(2::rat) powi (a - b) = 2 powi a / 2 powi b"
  by (simp add: power_int_diff)

lemma bitlen_pow_bounds:
  assumes "0 < (p::int)"
  shows "(2::rat) powi (bitlen p - 1) \<le> of_int p" "of_int p < (2::rat) powi bitlen p"
proof -
  from bitlen_bounds[OF assms] have a: "2 ^ nat (bitlen p - 1) \<le> p" and b: "p < 2 ^ nat (bitlen p)"
    by auto
  have ge1: "1 \<le> bitlen p" using assms by (auto simp: bitlen_alt_def)
  have "(of_int (2 ^ nat (bitlen p - 1)) :: rat) \<le> of_int p"
    using a of_int_le_iff by blast
  then show "(2::rat) powi (bitlen p - 1) \<le> of_int p"
    using ge1 by (simp add: power_int_def)
  have "(of_int p :: rat) < of_int (2 ^ nat (bitlen p))"
    using b of_int_less_iff by blast
  then show "of_int p < (2::rat) powi bitlen p"
    using ge1 by (simp add: power_int_def)
qed

lemma ilog2_bounds:
  assumes "0 < x"
  shows "2 powi ilog2 x \<le> x \<and> x < 2 powi (ilog2 x + 1)"
proof -
  obtain p q where pq: "quotient_of x = (p, q)" by (cases "quotient_of x")
  then have q: "0 < q" and x: "x = of_int p / of_int q"
    using quotient_of_denom_pos quotient_of_div by auto
  with assms have p: "0 < p"
    by (simp add: zero_less_divide_iff)
  let ?d = "bitlen p - bitlen q"
  have up: "x < 2 powi (?d + 1)"
  proof -
    have "of_int p < (2::rat) powi bitlen p" using bitlen_pow_bounds[OF p] by simp
    moreover have "(2::rat) powi (bitlen q - 1) \<le> of_int q" using bitlen_pow_bounds[OF q] by simp
    ultimately have "of_int p * (2::rat) powi (bitlen q - 1) < 2 powi bitlen p * of_int q"
      using q p by (intro mult_less_le_imp_less) auto
    then have "x * 2 powi (bitlen q - 1) < 2 powi bitlen p"
      using q by (simp add: x field_simps)
    then have "x < 2 powi bitlen p / 2 powi (bitlen q - 1)"
      by (simp add: field_simps)
    also have "\<dots> = 2 powi (bitlen p - (bitlen q - 1))"
      by (simp only: p2_diff)
    also have "bitlen p - (bitlen q - 1) = ?d + 1" by simp
    finally show ?thesis .
  qed
  have lo: "2 powi (?d - 1) \<le> x"
  proof -
    have "(2::rat) powi (bitlen p - 1) \<le> of_int p" using bitlen_pow_bounds[OF p] by simp
    moreover have "of_int q < (2::rat) powi bitlen q" using bitlen_pow_bounds[OF q] by simp
    ultimately have "(2::rat) powi (bitlen p - 1) * of_int q \<le> of_int p * 2 powi bitlen q"
      using q p by (intro mult_mono) auto
    then have "2 powi (bitlen p - 1) / 2 powi bitlen q \<le> x"
      using q by (simp add: x field_simps)
    moreover have "(2::rat) powi (bitlen p - 1) / 2 powi bitlen q = 2 powi (bitlen p - 1 - bitlen q)"
      by (simp only: p2_diff)
    moreover have "bitlen p - 1 - bitlen q = ?d - 1" by simp
    ultimately show ?thesis by simp
  qed
  show ?thesis
    using up lo by (simp add: ilog2_def pq Let_def)
qed


lemma rhe_cases: "round_half_even q = \<lfloor>q\<rfloor> \<or> round_half_even q = \<lfloor>q\<rfloor> + 1"
  by (simp add: round_half_even_def Let_def)

lemma rhe_of_int [simp]: "round_half_even (of_int n) = n"
  by (simp add: round_half_even_def Let_def)

lemma rhe_mono:
  assumes "p \<le> q"
  shows "round_half_even p \<le> round_half_even q"
proof (cases "\<lfloor>p\<rfloor> = \<lfloor>q\<rfloor>")
  case True
  then show ?thesis
    using assms by (auto simp: round_half_even_def Let_def)
next
  case False
  with assms have "\<lfloor>p\<rfloor> < \<lfloor>q\<rfloor>"
    using floor_mono[OF assms] by linarith
  then show ?thesis
    using rhe_cases[of p] rhe_cases[of q] by linarith
qed

lemma rhe_ge: "of_int n \<le> q \<Longrightarrow> n \<le> round_half_even q"
  using rhe_mono[of "of_int n" q] by simp

lemma rhe_le: "q \<le> of_int n \<Longrightarrow> round_half_even q \<le> n"
  using rhe_mono[of q "of_int n"] by simp


lemma p2_pos [simp]: "0 < (2::rat) powi e"
  by simp

lemma p2_less_iff: "(2::rat) powi a < 2 powi b \<longleftrightarrow> a < b"
  by (metis linorder_not_less nle_le one_less_numeral_iff power_int_increasing 
       power_int_strict_increasing semiring_norm(76))

lemma p2_le_iff: "(2::rat) powi a \<le> 2 powi b \<longleftrightarrow> a \<le> b"
  using p2_less_iff[of b a] by (simp only: linorder_not_less[symmetric])



lemma round_mag_nonneg:
  assumes "0 < a"
  shows "0 \<le> round_mag a"
proof -
  have "0 \<le> a / 2 powi ulp_exp a" using assms by simp
  then have "0 \<le> round_half_even (a / 2 powi ulp_exp a)"
    using rhe_ge[of 0] by simp
  then show ?thesis by (simp add: round_mag_def Let_def)
qed

lemma round_mag_upper:
  assumes "0 < a"
  shows "round_mag a \<le> 2 powi (ulp_exp a + 53)"
proof -
  let ?e = "ulp_exp a"
  have "ilog2 a + 1 \<le> ?e + 53" by (simp add: ulp_exp_def)
  then have "(2::rat) powi (ilog2 a + 1) \<le> 2 powi (?e + 53)" by (simp only: p2_le_iff)
  with ilog2_bounds[OF assms] have "a \<le> 2 powi (?e + 53)" by linarith
  also have "\<dots> = 2 powi 53 * 2 powi ?e" by (simp only: p2_add mult.commute)
  finally have "a / 2 powi ?e \<le> 2 powi 53" by (simp add: field_simps)
  then have "a / 2 powi ?e \<le> of_int (2 ^ 53)" by simp
  then have "round_half_even (a / 2 powi ?e) \<le> 2 ^ 53" by (rule rhe_le)
  then have "(of_int (round_half_even (a / 2 powi ?e)) :: rat) \<le> of_int (2 ^ 53)"
    by (simp only: of_int_le_iff)
  then have "of_int (round_half_even (a / 2 powi ?e)) * 2 powi ?e \<le> (2::rat) powi 53 * 2 powi ?e"
    by (simp add: mult_right_mono)
  then show ?thesis by (simp add: round_mag_def Let_def p2_add mult.commute)
qed




lemma round_mag_exact:
  assumes y: "y = of_int m * 2 powi e" and m: "0 < m" "m < 2 ^ 53" and e: "- 1074 \<le> e"
  shows "round_mag y = y"
proof -
  have ypos: "0 < y" using y m by simp
  have "(of_int m :: rat) < of_int (2 ^ 53)" using m(2) by (simp only: of_int_less_iff)
  then have "of_int m * 2 powi e < (2::rat) powi 53 * 2 powi e"
    by (simp add: mult_strict_right_mono)
  then have "y < 2 powi (53 + e)" by (simp only: y p2_add)
  with ilog2_bounds[OF ypos] have "(2::rat) powi ilog2 y < 2 powi (53 + e)" by linarith
  then have "ilog2 y < 53 + e" by (simp only: p2_less_iff)
  with e have le: "ulp_exp y \<le> e" by (simp add: ulp_exp_def)
  define u where "u = ulp_exp y"
  define k where "k = nat (e - u)"
  have "e = u + int k" using le by (simp add: k_def u_def)
  then have "(2::rat) powi e = 2 powi u * 2 ^ k"
    by (simp add: p2_add)
  then have "y = of_int (m * 2 ^ k) * 2 powi u"
    by (simp add: y)
  then have q: "y / 2 powi u = of_int (m * 2 ^ k)"
    by simp
  have "round_mag y = of_int (round_half_even (y / 2 powi u)) * 2 powi u"
    by (simp add: round_mag_def Let_def u_def)
  also have "\<dots> = of_int (m * 2 ^ k) * 2 powi u"
    by (simp only: q rhe_of_int)
  also have "\<dots> = y" using q by (simp add: field_simps)
  finally show ?thesis .
qed

lemma round_mag_idem:
  assumes "0 < a"
  shows "round_mag (round_mag a) = round_mag a"
proof -
  define e where "e = ulp_exp a"
  define m where "m = round_half_even (a / 2 powi e)"
  have rm: "round_mag a = of_int m * 2 powi e"
    by (simp add: round_mag_def Let_def m_def e_def)
  have e: "- 1074 \<le> e" by (simp add: e_def ulp_exp_def)
  have m0: "0 \<le> m" using rhe_ge[of 0 "a / 2 powi e"] assms by (simp add: m_def)
  have "round_mag a \<le> 2 powi 53 * 2 powi e"
    using round_mag_upper[OF assms] by (simp only: e_def p2_add mult.commute)
  then have "of_int m \<le> (2::rat) powi 53" by (simp add: rm)
  then have "(of_int m :: rat) \<le> of_int (2 ^ 53)" by simp
  then have m53: "m \<le> 2 ^ 53" by (simp only: of_int_le_iff)
  consider "m = 0" | "0 < m" "m < 2 ^ 53" | "m = 2 ^ 53" using m0 m53 by linarith
  then show ?thesis
  proof cases
    case 1
    then have "round_mag a = 0" by (simp add: rm)
    moreover have "round_mag 0 = 0" using rhe_of_int[of 0] by (simp add: round_mag_def)
    ultimately show ?thesis by simp
  next
    case 2
    then show ?thesis using round_mag_exact[OF rm _ _ e] by simp
  next
    case 3
    have "round_mag a = of_int (2 ^ 52) * 2 powi (e + 1)"
      by (simp add: rm 3 p2_add)
    then show ?thesis using round_mag_exact[of "round_mag a" "2 ^ 52" "e + 1"] e by simp
  qed
qed

lemma round_pos_idem:
  assumes "0 < a" "round_pos a = Finite y"
  shows "round64 y = Finite y"
proof -
  from assms(2) have y: "y = round_mag a" and small: "\<not> overflow_bound \<le> y"
    by (auto simp: round_pos_def Let_def split: if_splits)
  have "0 \<le> y" unfolding y by (rule round_mag_nonneg[OF assms(1)])
  moreover have "round_mag y = y" unfolding y by (rule round_mag_idem[OF assms(1)])
  ultimately show ?thesis using small
    by (simp add: round64_def round_pos_def Let_def)
qed

lemma round64_neg: "round64 (- x) = fneg (round64 x)"
proof -
  have "fneg (fneg p) = p" for p by (cases p) simp_all
  then show ?thesis by (simp add: round64_def)
qed

lemma round64_idem:
  assumes "round64 x = Finite y"
  shows "round64 y = Finite y"
proof -
  consider "x = 0" | "0 < x" | "x < 0" by linarith
  then show ?thesis
  proof cases
    case 1
    with assms show ?thesis by (simp add: round64_def)
  next
    case 2
    with assms have "round_pos x = Finite y" by (simp add: round64_def)
    with 2 show ?thesis by (rule round_pos_idem)
  next
    case 3
    with assms have "fneg (round_pos (- x)) = Finite y" by (simp add: round64_def)
    then have "round_pos (- x) = Finite (- y)" by (cases "round_pos (- x)") simp_all
    with 3 have "round64 (- y) = Finite (- y)" using round_pos_idem[of "- x" "- y"] by simp
    then have "fneg (round64 y) = Finite (- y)" by (simp add: round64_neg)
    then show ?thesis by (cases "round64 y") simp_all
  qed
qed








lemma overflow_bound_gt:
  assumes "e \<le> 971"
  shows "2 powi 53 * 2 powi e \<le> overflow_bound"
proof -
  have "(2::rat) powi 53 * 2 powi e = 2 powi (53 + e)" by (simp only: p2_add)
  also have "\<dots> \<le> 2 powi 1024" using assms by (simp only: p2_le_iff)
  finally show ?thesis by (simp only: overflow_bound_def)
qed

lemma round_pos_exact:
  assumes y: "y = of_int m * 2 powi e" and m: "0 < m" "m < 2 ^ 53" and e: "- 1074 \<le> e" "e \<le> 971"
  shows "round_pos y = Finite y"
proof -
  have "(of_int m :: rat) < of_int (2 ^ 53)" using m(2) by (simp only: of_int_less_iff)
  then have "of_int m * 2 powi e < (2::rat) powi 53 * 2 powi e"
    by (simp add: mult_strict_right_mono)
  with overflow_bound_gt[OF e(2)] have "y < overflow_bound" unfolding y by linarith
  then show ?thesis using round_mag_exact[OF y m e(1)] by (simp add: round_pos_def Let_def)
qed

lemma round64_exact:
  assumes y: "y = of_int m * 2 powi e" and m: "\<bar>m\<bar> < 2 ^ 53" and e: "- 1074 \<le> e" "e \<le> 971"
  shows "round64 y = Finite y"
proof -
  consider "m = 0" | "0 < m" | "m < 0" by linarith
  then show ?thesis
  proof cases
    case 1
    then show ?thesis by (simp add: y round64_def)
  next
    case 2
    then have "0 < y" by (simp add: y)
    moreover have "round_pos y = Finite y" using round_pos_exact[OF y 2 _ e] m by simp
    ultimately show ?thesis by (simp add: round64_def)
  next
    case 3
    then have "y < 0" by (simp add: y mult_neg_pos)
    moreover have "round_pos (- y) = Finite (- y)"
      using round_pos_exact[of "- y" "- m" e] 3 m e by (simp add: y)
    ultimately show ?thesis by (simp add: round64_def)
  qed
qed

lemma round64_of_int: "\<bar>m\<bar> < 2 ^ 53 \<Longrightarrow> round64 (of_int m) = Finite (of_int m)"
  using round64_exact[of "of_int m" m 0] by simp

lemma round64_numeral:
  "(numeral k :: int) < 2 ^ 53 \<Longrightarrow> round64 (numeral k) = Finite (numeral k)"
  "(numeral k :: int) < 2 ^ 53 \<Longrightarrow> round64 (- numeral k) = Finite (- numeral k)"
  using round64_of_int[of "numeral k"] round64_of_int[of "- numeral k"] by simp_all

lemma round64_0 [simp]: "round64 0 = Finite 0"
  by (simp add: round64_def)

text \<open>
  The rounding on known values: \<^verbatim>\<open>0.1\<close> is the float \<open>3602879701896397 / 2 ^ 55\<close>,
  and of the integers just above \<open>2 ^ 53\<close>, where floats are two apart, the odd ones lie
  halfway and go to the neighbour with the even significand.
\<close>

lemma no_overflow_small:
  assumes "y < 2 ^ 64"
  shows "\<not> overflow_bound \<le> y"
proof -
  have "(2::rat) ^ 64 = 2 powi 64" by simp
  also have "\<dots> \<le> 2 powi 1024" by (simp only: p2_le_iff)
  finally have "(2::rat) ^ 64 \<le> overflow_bound" by (simp only: overflow_bound_def)
  with assms show ?thesis by linarith
qed

lemma round_pos_small: "round_mag a < 2 ^ 64 \<Longrightarrow> round_pos a = Finite (round_mag a)"
  using no_overflow_small [of "round_mag a"] by (simp add: round_pos_def Let_def)

lemma round_mag_tenth: "round_mag (1 / 10) = 3602879701896397 / 36028797018963968"
  by code_simp

lemma round64_tenth: "round64 (1 / 10) = Finite (3602879701896397 / 36028797018963968)"
  using round_pos_small [of "1 / 10"] by (simp add: round64_def round_mag_tenth)

lemma round_mag_ties:
  "round_mag 9007199254740993 = 9007199254740992"
  "round_mag 9007199254740995 = 9007199254740996"
  by code_simp+

lemma round64_ties_to_even:
  "round64 9007199254740993 = Finite 9007199254740992"
  "round64 9007199254740995 = Finite 9007199254740996"
  using round_pos_small [of 9007199254740993] round_pos_small [of 9007199254740995]
  by (simp_all add: round64_def round_mag_ties)

lemma is_double_round64: "round64 x = p \<Longrightarrow> is_double p"
  by (cases p) (simp_all add: round64_idem)

lemma is_double_fadd [simp]: "is_double (fadd a b)"
  by (cases a; cases b) (simp_all add: is_double_round64)

lemma is_double_fsub [simp]: "is_double (fsub a b)"
  by (simp add: fsub_def)

lemma is_double_fmul [simp]: "is_double (fmul a b)"
  by (cases a; cases b) (simp_all add: is_double_round64)

lemma flt_pos_not_fle: "flt (Finite 0) a \<Longrightarrow> \<not> fle a (Finite 0)"
  by (cases a) simp_all





section \<open>Histories and balance floors of call sequences\<close>

lemma savings_step_history:
  "transactions (snd (savings_step s c))
     = transactions s @ (if fst (savings_step s c) = None then [savings_record s c] else [])"
  by (cases "(s, c)" rule: savings_step.cases)
    (simp_all add: SavingsAccount_deposit_def SavingsAccount_withdraw_def apply_interest_def
      add_transaction_def Transaction_init_def Let_def)

lemma checking_step_history:
  "transactions (snd (checking_step s c))
     = transactions s @ (if fst (checking_step s c) = None then [checking_record c] else [])"
  by (cases "(s, c)" rule: checking_step.cases)
    (simp_all add: CheckingAccount_deposit_def CheckingAccount_withdraw_def
      add_transaction_def Transaction_init_def)

lemma savings_run_history:
  "transactions (savings_run s cs) = transactions s @ savings_successes s cs"
  by (induction cs arbitrary: s) (simp_all add: savings_step_history)

lemma checking_run_history:
  "transactions (checking_run s cs) = transactions s @ checking_successes s cs"
  by (induction cs arbitrary: s) (simp_all add: checking_step_history)

lemma savings_successes_length:
  "length (savings_successes s cs) = count_list (savings_outcomes s cs) None"
  by (induction cs arbitrary: s) simp_all

lemma checking_successes_length:
  "length (checking_successes s cs) = count_list (checking_outcomes s cs) None"
  by (induction cs arbitrary: s) simp_all







section \<open>The claims\<close>

text \<open>
  The specification names the errors by kind. In the source every one of them is a
  \<^verbatim>\<open>ValueError\<close>, told apart by its message: InvalidAmount is
  \<^verbatim>\<open>Deposit amount must be positive.\<close> or \<^verbatim>\<open>Withdrawal amount must be positive.\<close>,
  InsufficientFunds is \<^verbatim>\<open>Insufficient funds.\<close> and OverdraftExceeded is
  \<^verbatim>\<open>Overdraft limit reached.\<close> The arithmetic of the claims is the arithmetic of Python
  floats: \<open>fadd\<close>, \<open>fsub\<close>, \<open>fmul\<close> and the comparisons \<open>fle\<close>, \<open>flt\<close>, \<open>fgt\<close>.
\<close>

text \<open>
  Claim C1. For every account (savings or checking) and every amount \<open>a \<le> 0\<close>,
  \<^verbatim>\<open>deposit(a)\<close> and \<^verbatim>\<open>withdraw(a)\<close> fail with InvalidAmount, and the call leaves the
  account as it found it: in particular the balance and the length of the transaction
  history are as before.
\<close>

theorem nonpositive_amount_rejected:
  assumes "fle a (Finite 0)"
  shows "SavingsAccount_deposit s a t = (Some (ValueError ''Deposit amount must be positive.''), s)
       \<and> balance (snd (SavingsAccount_deposit s a t)) = balance s
       \<and> length (transactions (snd (SavingsAccount_deposit s a t))) = length (transactions s)
       \<and> SavingsAccount_withdraw s a t = (Some (ValueError ''Withdrawal amount must be positive.''), s)
       \<and> balance (snd (SavingsAccount_withdraw s a t)) = balance s
       \<and> length (transactions (snd (SavingsAccount_withdraw s a t))) = length (transactions s)
       \<and> CheckingAccount_deposit c a t = (Some (ValueError ''Deposit amount must be positive.''), c)
       \<and> balance (snd (CheckingAccount_deposit c a t)) = balance c
       \<and> length (transactions (snd (CheckingAccount_deposit c a t))) = length (transactions c)
       \<and> CheckingAccount_withdraw c a t = (Some (ValueError ''Withdrawal amount must be positive.''), c)
       \<and> balance (snd (CheckingAccount_withdraw c a t)) = balance c
       \<and> length (transactions (snd (CheckingAccount_withdraw c a t))) = length (transactions c)"
  using assms
  by (simp add: SavingsAccount_deposit_def SavingsAccount_withdraw_def
      CheckingAccount_deposit_def CheckingAccount_withdraw_def)

text \<open>
  C1 at a deposit of \<open>-5\<close> into a savings account and a withdrawal of \<open>-5\<close> from a
  checking account.
\<close>

theorem nonpositive_amount_rejected_witness:
  "fle (Finite (- 5)) (Finite 0)
   \<and> SavingsAccount_deposit (SavingsAccount_init ''Alice'' (Finite 100) (Finite (1 / 4))) (Finite (- 5)) 7
       = (Some (ValueError ''Deposit amount must be positive.''),
          SavingsAccount_init ''Alice'' (Finite 100) (Finite (1 / 4)))
   \<and> CheckingAccount_withdraw (CheckingAccount_init ''Bob'' (Finite 0) (Finite (- 500))) (Finite (- 5)) 7
       = (Some (ValueError ''Withdrawal amount must be positive.''),
          CheckingAccount_init ''Bob'' (Finite 0) (Finite (- 500)))"
proof -
  have h: "fle (Finite (- 5)) (Finite 0)" by simp
  show ?thesis
    using h nonpositive_amount_rejected [OF h,
        of "SavingsAccount_init ''Alice'' (Finite 100) (Finite (1 / 4))" 7
           "CheckingAccount_init ''Bob'' (Finite 0) (Finite (- 500))"]
    by simp
qed

text \<open>
  Claim C2. For every account and every amount \<open>a\<close> such that \<^verbatim>\<open>deposit(a)\<close>
  succeeds, the new balance is the old balance plus \<open>a\<close>, the history is one record
  longer, and the appended record has amount \<open>a\<close> and type \<^verbatim>\<open>Deposit\<close>.
\<close>

theorem successful_deposit:
  "(fst (SavingsAccount_deposit s a t) = None \<longrightarrow>
      balance (snd (SavingsAccount_deposit s a t)) = fadd (balance s) a
    \<and> length (transactions (snd (SavingsAccount_deposit s a t))) = length (transactions s) + 1
    \<and> transactions (snd (SavingsAccount_deposit s a t))
        = transactions s @ [\<lparr>amount = a, transaction_type = ''Deposit'', date = t\<rparr>])
 \<and> (fst (CheckingAccount_deposit c a t) = None \<longrightarrow>
      balance (snd (CheckingAccount_deposit c a t)) = fadd (balance c) a
    \<and> length (transactions (snd (CheckingAccount_deposit c a t))) = length (transactions c) + 1
    \<and> transactions (snd (CheckingAccount_deposit c a t))
        = transactions c @ [\<lparr>amount = a, transaction_type = ''Deposit'', date = t\<rparr>])"
  by (simp add: SavingsAccount_deposit_def CheckingAccount_deposit_def add_transaction_def
      Transaction_init_def)

text \<open>C2 at a deposit of 50 into a savings account that holds 100.\<close>

theorem successful_deposit_witness:
  "fst (SavingsAccount_deposit (SavingsAccount_init ''Alice'' (Finite 100) (Finite (1 / 4))) (Finite 50) 7) = None
   \<and> balance (snd (SavingsAccount_deposit (SavingsAccount_init ''Alice'' (Finite 100) (Finite (1 / 4))) (Finite 50) 7))
       = Finite 150
   \<and> transactions (snd (SavingsAccount_deposit (SavingsAccount_init ''Alice'' (Finite 100) (Finite (1 / 4))) (Finite 50) 7))
       = [\<lparr>amount = Finite 50, transaction_type = ''Deposit'', date = 7\<rparr>]"
proof -
  have h: "fst (SavingsAccount_deposit (SavingsAccount_init ''Alice'' (Finite 100) (Finite (1 / 4))) (Finite 50) 7) = None"
    by (simp add: SavingsAccount_deposit_def)
  show ?thesis
    using h successful_deposit [of "SavingsAccount_init ''Alice'' (Finite 100) (Finite (1 / 4))" "Finite 50" 7]
    by (simp add: SavingsAccount_init_def round64_numeral)
qed

text \<open>
  Claim C3. For every account and every amount \<open>a\<close> such that \<^verbatim>\<open>withdraw(a)\<close>
  succeeds, the new balance is the old balance minus \<open>a\<close>, the history is one record
  longer, and the appended record has amount \<open>a\<close> and type \<^verbatim>\<open>Withdrawal\<close>.
\<close>

theorem successful_withdrawal:
  "(fst (SavingsAccount_withdraw s a t) = None \<longrightarrow>
      balance (snd (SavingsAccount_withdraw s a t)) = fsub (balance s) a
    \<and> length (transactions (snd (SavingsAccount_withdraw s a t))) = length (transactions s) + 1
    \<and> transactions (snd (SavingsAccount_withdraw s a t))
        = transactions s @ [\<lparr>amount = a, transaction_type = ''Withdrawal'', date = t\<rparr>])
 \<and> (fst (CheckingAccount_withdraw c a t) = None \<longrightarrow>
      balance (snd (CheckingAccount_withdraw c a t)) = fsub (balance c) a
    \<and> length (transactions (snd (CheckingAccount_withdraw c a t))) = length (transactions c) + 1
    \<and> transactions (snd (CheckingAccount_withdraw c a t))
        = transactions c @ [\<lparr>amount = a, transaction_type = ''Withdrawal'', date = t\<rparr>])"
  by (simp add: SavingsAccount_withdraw_def CheckingAccount_withdraw_def add_transaction_def
      Transaction_init_def)

text \<open>C3 at a withdrawal of 400 from an empty checking account with limit \<open>-500\<close>.\<close>

theorem successful_withdrawal_witness:
  "fst (CheckingAccount_withdraw (CheckingAccount_init ''Bob'' (Finite 0) (Finite (- 500))) (Finite 400) 7) = None
   \<and> balance (snd (CheckingAccount_withdraw (CheckingAccount_init ''Bob'' (Finite 0) (Finite (- 500))) (Finite 400) 7))
       = Finite (- 400)
   \<and> transactions (snd (CheckingAccount_withdraw (CheckingAccount_init ''Bob'' (Finite 0) (Finite (- 500))) (Finite 400) 7))
       = [\<lparr>amount = Finite 400, transaction_type = ''Withdrawal'', date = 7\<rparr>]"
proof -
  have h: "fst (CheckingAccount_withdraw (CheckingAccount_init ''Bob'' (Finite 0) (Finite (- 500))) (Finite 400) 7) = None"
    by (simp add: CheckingAccount_withdraw_def CheckingAccount_init_def fsub_def round64_numeral)
  show ?thesis
    using h successful_withdrawal [where c = "CheckingAccount_init ''Bob'' (Finite 0) (Finite (- 500))"
        and a = "Finite 400" and t = 7]
    by (simp add: CheckingAccount_init_def fsub_def round64_numeral)
qed

text \<open>
  Claim C4, as the specification states it, fails at the boundary when the balance and
  the amount are both \<^verbatim>\<open>float('inf')\<close>, which \<^verbatim>\<open>float(input(...))\<close> accepts: the
  withdrawal succeeds, and it leaves the balance \<^verbatim>\<open>inf - inf\<close>, which is NaN and not 0.
\<close>

theorem savings_withdraw_boundary_counterexample:
  "flt (Finite 0) PosInf
   \<and> balance (SavingsAccount_init ''Alice'' PosInf (Finite 0)) = PosInf
   \<and> fst (SavingsAccount_withdraw (SavingsAccount_init ''Alice'' PosInf (Finite 0)) PosInf 7) = None
   \<and> balance (snd (SavingsAccount_withdraw (SavingsAccount_init ''Alice'' PosInf (Finite 0)) PosInf 7)) = NaN
   \<and> balance (snd (SavingsAccount_withdraw (SavingsAccount_init ''Alice'' PosInf (Finite 0)) PosInf 7)) \<noteq> Finite 0"
  by (simp add: SavingsAccount_withdraw_def SavingsAccount_init_def add_transaction_def fgt_def fsub_def)

text \<open>
  Claim C4, amended. For every SavingsAccount with balance \<open>b\<close> and every amount
  \<open>a > 0\<close>, \<^verbatim>\<open>withdraw(a)\<close> fails with InsufficientFunds if and only if \<open>a > b\<close>, and
  succeeds otherwise; in particular the boundary case \<open>a = b\<close> succeeds, and for a finite
  \<open>a\<close> it leaves the balance exactly 0.
\<close>

theorem savings_withdraw_insufficient_funds:
  assumes "flt (Finite 0) a"
  shows "(fst (SavingsAccount_withdraw s a t) = Some (ValueError ''Insufficient funds.'')
            \<longleftrightarrow> fgt a (balance s))
       \<and> (fst (SavingsAccount_withdraw s a t) = None \<longleftrightarrow> \<not> fgt a (balance s))
       \<and> (a = balance s \<longrightarrow>
            fst (SavingsAccount_withdraw s a t) = None
          \<and> (a \<noteq> PosInf \<longrightarrow> balance (snd (SavingsAccount_withdraw s a t)) = Finite 0))"
proof -
  have pos: "\<not> fle a (Finite 0)" using assms by (rule flt_pos_not_fle)
  have self: "\<not> fgt a a" by (cases a) (simp_all add: fgt_def)
  have zero: "fsub a a = Finite 0" if "a \<noteq> PosInf"
    using that assms by (cases a) (simp_all add: fsub_def)
  show ?thesis
    using pos self zero
    by (auto simp: SavingsAccount_withdraw_def add_transaction_def)
qed

text \<open>C4 at the boundary: a withdrawal of 100 from a savings account that holds 100.\<close>

theorem savings_withdraw_insufficient_funds_witness:
  "flt (Finite 0) (Finite 100)
   \<and> fst (SavingsAccount_withdraw (SavingsAccount_init ''Alice'' (Finite 100) (Finite (1 / 4))) (Finite 100) 7) = None
   \<and> balance (snd (SavingsAccount_withdraw (SavingsAccount_init ''Alice'' (Finite 100) (Finite (1 / 4))) (Finite 100) 7))
       = Finite 0"
proof -
  have h: "flt (Finite 0) (Finite 100)" by simp
  show ?thesis
    using h savings_withdraw_insufficient_funds [OF h,
        of "SavingsAccount_init ''Alice'' (Finite 100) (Finite (1 / 4))" 7]
    by (simp add: SavingsAccount_init_def)
qed

text \<open>
  Claim C5. For every CheckingAccount with balance \<open>b\<close> and overdraft limit \<open>L\<close> and
  every amount \<open>a > 0\<close>, \<^verbatim>\<open>withdraw(a)\<close> fails with OverdraftExceeded if and only if
  \<open>b - a < L\<close>, and succeeds otherwise; in particular the boundary case \<open>b - a = L\<close>
  succeeds and leaves the balance at the limit.
\<close>

theorem checking_withdraw_overdraft:
  assumes "flt (Finite 0) a"
  shows "(fst (CheckingAccount_withdraw c a t) = Some (ValueError ''Overdraft limit reached.'')
            \<longleftrightarrow> flt (fsub (balance c) a) (overdraft_limit c))
       \<and> (fst (CheckingAccount_withdraw c a t) = None
            \<longleftrightarrow> \<not> flt (fsub (balance c) a) (overdraft_limit c))
       \<and> (fsub (balance c) a = overdraft_limit c \<longrightarrow>
            fst (CheckingAccount_withdraw c a t) = None
          \<and> balance (snd (CheckingAccount_withdraw c a t)) = overdraft_limit c)"
proof -
  have pos: "\<not> fle a (Finite 0)" using assms by (rule flt_pos_not_fle)
  have self: "\<not> flt p p" for p by (cases p) simp_all
  show ?thesis
    using pos self [of "overdraft_limit c"]
    by (auto simp: CheckingAccount_withdraw_def add_transaction_def)
qed

text \<open>
  The scenario of C5: with balance 0 and limit \<open>-500\<close>, \<^verbatim>\<open>withdraw(400)\<close> succeeds and
  leaves \<open>-400\<close>; \<^verbatim>\<open>withdraw(200)\<close> then fails with OverdraftExceeded and leaves \<open>-400\<close>.
\<close>

theorem checking_withdraw_overdraft_witness:
  "flt (Finite 0) (Finite 400) \<and> flt (Finite 0) (Finite 200)
   \<and> CheckingAccount_withdraw (CheckingAccount_init ''Bob'' (Finite 0) (Finite (- 500))) (Finite 400) 7
       = (None, \<lparr>owner = ''Bob'', balance = Finite (- 400),
                 transactions = [\<lparr>amount = Finite 400, transaction_type = ''Withdrawal'', date = 7\<rparr>],
                 overdraft_limit = Finite (- 500)\<rparr>)
   \<and> fst (CheckingAccount_withdraw
             (snd (CheckingAccount_withdraw (CheckingAccount_init ''Bob'' (Finite 0) (Finite (- 500))) (Finite 400) 7))
             (Finite 200) 8)
       = Some (ValueError ''Overdraft limit reached.'')
   \<and> balance (snd (CheckingAccount_withdraw
             (snd (CheckingAccount_withdraw (CheckingAccount_init ''Bob'' (Finite 0) (Finite (- 500))) (Finite 400) 7))
             (Finite 200) 8))
       = Finite (- 400)"
proof -
  have h: "flt (Finite 0) (Finite 400)" and k: "flt (Finite 0) (Finite 200)" by simp_all
  have 1: "CheckingAccount_withdraw (CheckingAccount_init ''Bob'' (Finite 0) (Finite (- 500))) (Finite 400) 7
       = (None, \<lparr>owner = ''Bob'', balance = Finite (- 400),
                 transactions = [\<lparr>amount = Finite 400, transaction_type = ''Withdrawal'', date = 7\<rparr>],
                 overdraft_limit = Finite (- 500)\<rparr>)"
    by (simp add: CheckingAccount_withdraw_def CheckingAccount_init_def add_transaction_def
        Transaction_init_def fsub_def round64_numeral)
  show ?thesis
    using h k 1
      checking_withdraw_overdraft [OF k,
        of "snd (CheckingAccount_withdraw (CheckingAccount_init ''Bob'' (Finite 0) (Finite (- 500))) (Finite 400) 7)" 8]
    by (simp add: CheckingAccount_withdraw_def fsub_def round64_numeral)
qed




text \<open>
  Claim C7. For every SavingsAccount with balance \<open>B\<close> and interest rate \<open>R\<close>,
  \<^verbatim>\<open>apply_interest()\<close> either credits \<open>B * R\<close> to the balance and appends one Deposit
  record of amount \<open>B * R\<close>, which it does when \<open>B * R > 0\<close>, or fails with
  InvalidAmount, which it does when \<open>B * R \<le> 0\<close>; a call that fails leaves the balance
  and the history unchanged.
\<close>

theorem apply_interest_credits_or_rejects:
  "(flt (Finite 0) (fmul (balance s) (interest_rate s)) \<longrightarrow>
      fst (apply_interest s t) = None
    \<and> balance (snd (apply_interest s t)) = fadd (balance s) (fmul (balance s) (interest_rate s))
    \<and> transactions (snd (apply_interest s t))
        = transactions s @ [\<lparr>amount = fmul (balance s) (interest_rate s),
                               transaction_type = ''Deposit'', date = t\<rparr>])
 \<and> (fle (fmul (balance s) (interest_rate s)) (Finite 0) \<longrightarrow>
      apply_interest s t = (Some (ValueError ''Deposit amount must be positive.''), s))
 \<and> (fst (apply_interest s t) \<noteq> None \<longrightarrow>
      fst (apply_interest s t) = Some (ValueError ''Deposit amount must be positive.'')
    \<and> balance (snd (apply_interest s t)) = balance s
    \<and> transactions (snd (apply_interest s t)) = transactions s)
 \<and> (fst (apply_interest s t) = None \<longrightarrow>
      balance (snd (apply_interest s t)) = fadd (balance s) (fmul (balance s) (interest_rate s))
    \<and> transactions (snd (apply_interest s t))
        = transactions s @ [\<lparr>amount = fmul (balance s) (interest_rate s),
                               transaction_type = ''Deposit'', date = t\<rparr>])"
  by (auto simp: apply_interest_def SavingsAccount_deposit_def add_transaction_def
      Transaction_init_def Let_def dest: flt_pos_not_fle)

text \<open>
  C7 on a balance of 100: at the rate 1/4 the interest of 25 is credited, and at the
  rate 0 the call fails and leaves the account as it was.
\<close>

theorem apply_interest_credits_or_rejects_witness:
  "flt (Finite 0) (fmul (Finite 100) (Finite (1 / 4)))
   \<and> fst (apply_interest (SavingsAccount_init ''Alice'' (Finite 100) (Finite (1 / 4))) 7) = None
   \<and> balance (snd (apply_interest (SavingsAccount_init ''Alice'' (Finite 100) (Finite (1 / 4))) 7))
       = Finite 125
   \<and> transactions (snd (apply_interest (SavingsAccount_init ''Alice'' (Finite 100) (Finite (1 / 4))) 7))
       = [\<lparr>amount = Finite 25, transaction_type = ''Deposit'', date = 7\<rparr>]
   \<and> fle (fmul (Finite 100) (Finite 0)) (Finite 0)
   \<and> apply_interest (SavingsAccount_init ''Alice'' (Finite 100) (Finite 0)) 7
       = (Some (ValueError ''Deposit amount must be positive.''),
          SavingsAccount_init ''Alice'' (Finite 100) (Finite 0))"
proof -
  let ?A = "SavingsAccount_init ''Alice'' (Finite 100) (Finite (1 / 4))"
  let ?B = "SavingsAccount_init ''Alice'' (Finite 100) (Finite 0)"
  have i: "fmul (balance ?A) (interest_rate ?A) = Finite 25"
    and j: "fmul (balance ?B) (interest_rate ?B) = Finite 0"
    and v: "fadd (balance ?A) (Finite 25) = Finite 125"
    and n: "transactions ?A = []"
    by (simp_all add: SavingsAccount_init_def round64_numeral)
  have h: "flt (Finite 0) (fmul (balance ?A) (interest_rate ?A))"
    and k: "fle (fmul (balance ?B) (interest_rate ?B)) (Finite 0)"
    by (simp_all add: i j)
  have a: "fst (apply_interest ?A 7) = None
    \<and> balance (snd (apply_interest ?A 7)) = fadd (balance ?A) (fmul (balance ?A) (interest_rate ?A))
    \<and> transactions (snd (apply_interest ?A 7))
        = transactions ?A @ [\<lparr>amount = fmul (balance ?A) (interest_rate ?A),
                               transaction_type = ''Deposit'', date = 7\<rparr>]"
    using apply_interest_credits_or_rejects [of ?A 7] h by blast
  have b: "apply_interest ?B 7 = (Some (ValueError ''Deposit amount must be positive.''), ?B)"
    using apply_interest_credits_or_rejects [of ?B 7] k by blast
  have c: "flt (Finite 0) (fmul (Finite 100) (Finite (1 / 4)))"
    "fle (fmul (Finite 100) (Finite 0)) (Finite 0)"
    by (simp_all add: round64_numeral)
  from a b c show ?thesis by (simp only: i v n append_Nil)
qed

text \<open>
  Claim C8. For every account and every sequence of operations, the history the calls
  leave is the history they found followed by the records of the successful calls, in
  the order of the calls: nothing is reordered, removed or deduplicated, a failed call
  appends nothing, and the length grows by the number of successful calls. On an account
  fresh from its constructor the history is exactly those records.
\<close>

theorem history_is_successful_calls_in_order:
  "transactions (savings_run s cs) = transactions s @ savings_successes s cs
 \<and> length (transactions (savings_run s cs))
     = length (transactions s) + count_list (savings_outcomes s cs) None
 \<and> transactions (savings_run (SavingsAccount_init own b r) cs)
     = savings_successes (SavingsAccount_init own b r) cs
 \<and> length (transactions (savings_run (SavingsAccount_init own b r) cs))
     = count_list (savings_outcomes (SavingsAccount_init own b r) cs) None
 \<and> transactions (checking_run c ds) = transactions c @ checking_successes c ds
 \<and> length (transactions (checking_run c ds))
     = length (transactions c) + count_list (checking_outcomes c ds) None
 \<and> transactions (checking_run (CheckingAccount_init own b l) ds)
     = checking_successes (CheckingAccount_init own b l) ds
 \<and> length (transactions (checking_run (CheckingAccount_init own b l) ds))
     = count_list (checking_outcomes (CheckingAccount_init own b l) ds) None"
proof -
  have "transactions (SavingsAccount_init own b r) = []"
    "transactions (CheckingAccount_init own b l) = []"
    by (simp_all add: SavingsAccount_init_def CheckingAccount_init_def)
  then show ?thesis
    by (simp add: savings_run_history checking_run_history
        savings_successes_length checking_successes_length)
qed

text \<open>
  C8 on a savings account that starts at 100 with rate 1/4: a deposit of 50, a rejected
  withdrawal of \<open>-5\<close>, a rejected withdrawal of 1000, a withdrawal of 30 and an interest
  accrual leave three records, in that order.
\<close>

theorem history_is_successful_calls_in_order_witness:
  "savings_outcomes (SavingsAccount_init ''Alice'' (Finite 100) (Finite (1 / 4)))
      [(SDeposit (Finite 50), 1), (SWithdraw (Finite (- 5)), 2), (SWithdraw (Finite 1000), 3),
       (SWithdraw (Finite 30), 4), (SApplyInterest, 5)]
     = [None, Some (ValueError ''Withdrawal amount must be positive.''),
        Some (ValueError ''Insufficient funds.''), None, None]
 \<and> transactions (savings_run (SavingsAccount_init ''Alice'' (Finite 100) (Finite (1 / 4)))
      [(SDeposit (Finite 50), 1), (SWithdraw (Finite (- 5)), 2), (SWithdraw (Finite 1000), 3),
       (SWithdraw (Finite 30), 4), (SApplyInterest, 5)])
     = [\<lparr>amount = Finite 50, transaction_type = ''Deposit'', date = 1\<rparr>,
        \<lparr>amount = Finite 30, transaction_type = ''Withdrawal'', date = 4\<rparr>,
        \<lparr>amount = Finite 30, transaction_type = ''Deposit'', date = 5\<rparr>]"
proof -
  let ?A = "SavingsAccount_init ''Alice'' (Finite 100) (Finite (1 / 4))"
  let ?cs = "[(SDeposit (Finite 50), 1), (SWithdraw (Finite (- 5)), 2), (SWithdraw (Finite 1000), 3),
       (SWithdraw (Finite 30), 4), (SApplyInterest, 5)]"
  have o: "savings_outcomes ?A ?cs
     = [None, Some (ValueError ''Withdrawal amount must be positive.''),
        Some (ValueError ''Insufficient funds.''), None, None]"
    by (simp add: SavingsAccount_init_def SavingsAccount_deposit_def SavingsAccount_withdraw_def
        apply_interest_def add_transaction_def Transaction_init_def Let_def fgt_def fsub_def
        round64_numeral)
  have r: "savings_successes ?A ?cs
     = [\<lparr>amount = Finite 50, transaction_type = ''Deposit'', date = 1\<rparr>,
        \<lparr>amount = Finite 30, transaction_type = ''Withdrawal'', date = 4\<rparr>,
        \<lparr>amount = Finite 30, transaction_type = ''Deposit'', date = 5\<rparr>]"
    by (simp add: SavingsAccount_init_def SavingsAccount_deposit_def SavingsAccount_withdraw_def
        apply_interest_def add_transaction_def Transaction_init_def Let_def fgt_def fsub_def
        round64_numeral)
  have "transactions (savings_run ?A ?cs) = savings_successes ?A ?cs"
    using history_is_successful_calls_in_order [where own = "''Alice''" and b = "Finite 100"
        and r = "Finite (1 / 4)" and cs = ?cs]
    by blast
  with o r show ?thesis by simp
qed

text \<open>
  Claim C9. For every account, \<^verbatim>\<open>get_transaction_history()\<close> prints the account's
  Transaction Records in their order, one line for each, and leaves the account as it
  was; when the history is empty it prints the one line \<^verbatim>\<open>No transactions found.\<close>
  and returns normally (the method raises nothing).
\<close>

theorem transaction_history_read_only:
  "fst (get_transaction_history strftime format_2f self)
     = (if transactions self = [] then [''No transactions found.'']
        else map (Transaction_str strftime format_2f) (transactions self))
 \<and> (transactions self \<noteq> [] \<longrightarrow>
      length (fst (get_transaction_history strftime format_2f self)) = length (transactions self)
    \<and> (\<forall>i < length (transactions self).
         fst (get_transaction_history strftime format_2f self) ! i
           = strftime (date (transactions self ! i)) @ '' - ''
               @ transaction_type (transactions self ! i) @ '': ''
               @ format_2f (amount (transactions self ! i))))
 \<and> snd (get_transaction_history strftime format_2f self) = self"
  by (simp add: get_transaction_history_def Transaction_str_def)

text \<open>
  C9 on a fresh savings account, and on the same account after a deposit of 50, with
  stand-ins for \<^verbatim>\<open>strftime\<close> and for the \<^verbatim>\<open>:.2f\<close> format.
\<close>

theorem transaction_history_read_only_witness:
  "fst (get_transaction_history (\<lambda>d. ''day'') (\<lambda>x. ''50.00'')
          (SavingsAccount_init ''Alice'' (Finite 100) (Finite (1 / 4))))
     = [''No transactions found.'']
 \<and> fst (get_transaction_history (\<lambda>d. ''day'') (\<lambda>x. ''50.00'')
          (snd (SavingsAccount_deposit (SavingsAccount_init ''Alice'' (Finite 100) (Finite (1 / 4))) (Finite 50) 7)))
     = [''day - Deposit: 50.00'']
 \<and> snd (get_transaction_history (\<lambda>d. ''day'') (\<lambda>x. ''50.00'')
          (snd (SavingsAccount_deposit (SavingsAccount_init ''Alice'' (Finite 100) (Finite (1 / 4))) (Finite 50) 7)))
     = snd (SavingsAccount_deposit (SavingsAccount_init ''Alice'' (Finite 100) (Finite (1 / 4))) (Finite 50) 7)"
  using transaction_history_read_only [of "\<lambda>d. ''day''" "\<lambda>x. ''50.00''"
          "SavingsAccount_init ''Alice'' (Finite 100) (Finite (1 / 4))"]
    transaction_history_read_only [of "\<lambda>d. ''day''" "\<lambda>x. ''50.00''"
          "snd (SavingsAccount_deposit (SavingsAccount_init ''Alice'' (Finite 100) (Finite (1 / 4))) (Finite 50) 7)"]
  by (simp add: SavingsAccount_init_def SavingsAccount_deposit_def add_transaction_def
      Transaction_init_def Transaction_str_def)

text \<open>
  Claim C10. Every call to deposit, withdraw or apply_interest, whether it succeeds or
  fails, leaves the owner unchanged on every account, the interest rate unchanged on a
  SavingsAccount and the overdraft limit unchanged on a CheckingAccount.
\<close>

theorem other_fields_unchanged:
  "owner (snd (SavingsAccount_deposit s a t)) = owner s
 \<and> interest_rate (snd (SavingsAccount_deposit s a t)) = interest_rate s
 \<and> owner (snd (SavingsAccount_withdraw s a t)) = owner s
 \<and> interest_rate (snd (SavingsAccount_withdraw s a t)) = interest_rate s
 \<and> owner (snd (apply_interest s t)) = owner s
 \<and> interest_rate (snd (apply_interest s t)) = interest_rate s
 \<and> owner (snd (CheckingAccount_deposit c a t)) = owner c
 \<and> overdraft_limit (snd (CheckingAccount_deposit c a t)) = overdraft_limit c
 \<and> owner (snd (CheckingAccount_withdraw c a t)) = owner c
 \<and> overdraft_limit (snd (CheckingAccount_withdraw c a t)) = overdraft_limit c"
  by (simp add: SavingsAccount_deposit_def SavingsAccount_withdraw_def apply_interest_def
      CheckingAccount_deposit_def CheckingAccount_withdraw_def add_transaction_def Let_def)

text \<open>
  C10 on a successful deposit, a successful interest accrual and a withdrawal that the
  overdraft limit rejects.
\<close>

theorem other_fields_unchanged_witness:
  "owner (snd (SavingsAccount_deposit (SavingsAccount_init ''Alice'' (Finite 100) (Finite (1 / 4))) (Finite 50) 7))
     = ''Alice''
 \<and> interest_rate (snd (apply_interest (SavingsAccount_init ''Alice'' (Finite 100) (Finite (1 / 4))) 7))
     = Finite (1 / 4)
 \<and> overdraft_limit (snd (CheckingAccount_withdraw (CheckingAccount_init ''Bob'' (Finite 0) (Finite (- 500))) (Finite 900) 7))
     = Finite (- 500)"
  using other_fields_unchanged [of "SavingsAccount_init ''Alice'' (Finite 100) (Finite (1 / 4))" "Finite 50" 7
      "CheckingAccount_init ''Bob'' (Finite 0) (Finite (- 500))"]
    other_fields_unchanged [of "SavingsAccount_init ''Alice'' (Finite 100) (Finite (1 / 4))" "Finite 900" 7
      "CheckingAccount_init ''Bob'' (Finite 0) (Finite (- 500))"]
  by (simp add: SavingsAccount_init_def CheckingAccount_init_def)

end
